theory Spec2Isabelle
  imports Complex_Main
begin

section \<open>Arrays and \<open>np.clip\<close>\<close>

text \<open>
  The elements of an array are floating-point values: the finite ones are modelled as
  real numbers, beside them stand the two infinities and NaN. Rounding and dtype casts
  are outside the model. \<open>fle\<close> is the comparison \<open><=\<close>, false as soon as an operand is
  NaN; \<open>fmaximum\<close> and \<open>fminimum\<close> are \<open>np.maximum\<close> and \<open>np.minimum\<close> on two elements,
  which return NaN as soon as an operand is NaN.
\<close>

datatype npfloat = NegInf | Finite real | PosInf | NaN

fun fle :: "npfloat \<Rightarrow> npfloat \<Rightarrow> bool" where
  "fle NaN y = False"
| "fle x NaN = False"
| "fle NegInf y = True"
| "fle x PosInf = True"
| "fle (Finite x) (Finite y) = (x \<le> y)"
| "fle x y = False"

definition fmaximum :: "npfloat \<Rightarrow> npfloat \<Rightarrow> npfloat" where
  "fmaximum x y = (if x = NaN \<or> y = NaN then NaN else if fle x y then y else x)"

definition fminimum :: "npfloat \<Rightarrow> npfloat \<Rightarrow> npfloat" where
  "fminimum x y = (if x = NaN \<or> y = NaN then NaN else if fle x y then x else y)"

text \<open>An array is its shape and its elements in row-major order.\<close>

datatype ndarray = NDArray (shape: "nat list") (data: "npfloat list")

definition array_ok :: "ndarray \<Rightarrow> bool" where
  "array_ok a = (length (data a) = prod_list (shape a))"

text \<open>
  NumPy broadcasting. Shapes are aligned at the last axis; two extents are compatible
  when they are equal or one of them is 1. \<open>broadcast_rev\<close> works on reversed shapes.
\<close>

fun broadcast_rev :: "nat list \<Rightarrow> nat list \<Rightarrow> nat list option" where
  "broadcast_rev [] ys = Some ys"
| "broadcast_rev (x # xs) [] = Some (x # xs)"
| "broadcast_rev (x # xs) (y # ys) =
     (if x = y \<or> y = 1 then map_option (Cons x) (broadcast_rev xs ys)
      else if x = 1 then map_option (Cons y) (broadcast_rev xs ys)
      else None)"

definition broadcast_shapes :: "nat list \<Rightarrow> nat list \<Rightarrow> nat list option" where
  "broadcast_shapes s t = map_option rev (broadcast_rev (rev s) (rev t))"

definition pad_shape :: "nat \<Rightarrow> nat list \<Rightarrow> nat list" where
  "pad_shape r s = replicate (r - length s) 1 @ s"

fun chunks :: "nat \<Rightarrow> nat \<Rightarrow> 'a list \<Rightarrow> 'a list list" where
  "chunks 0 n d = []"
| "chunks (Suc k) n d = take n d # chunks k n (drop n d)"

text \<open>
  \<open>expand s t d\<close> repeats the rows of the elements \<open>d\<close> of shape \<open>s\<close> along every axis
  whose extent differs from the one of the target shape \<open>t\<close> (there the extent of \<open>s\<close>
  is 1).
\<close>

fun expand :: "nat list \<Rightarrow> nat list \<Rightarrow> 'a list \<Rightarrow> 'a list" where
  "expand (s # ss) (t # ts) d =
     (let rows = map (expand ss ts) (chunks s (prod_list ss) d)
      in if s = t then concat rows else concat (replicate t (concat rows)))"
| "expand ss ts d = d"

definition broadcast_to :: "ndarray \<Rightarrow> nat list \<Rightarrow> npfloat list" where
  "broadcast_to a t = expand (pad_shape (length t) (shape a)) t (data a)"

definition clip1 :: "npfloat \<Rightarrow> npfloat \<Rightarrow> npfloat \<Rightarrow> npfloat" where
  "clip1 x lo hi = fminimum (fmaximum x lo) hi"

fun map3 :: "('a \<Rightarrow> 'b \<Rightarrow> 'c \<Rightarrow> 'd) \<Rightarrow> 'a list \<Rightarrow> 'b list \<Rightarrow> 'c list \<Rightarrow> 'd list" where
  "map3 f (x # xs) (y # ys) (z # zs) = f x y z # map3 f xs ys zs"
| "map3 f xs ys zs = []"

section \<open>Python values, actions and errors\<close>

text \<open>
  The values a function bundle hands to the adapter: arrays of the accelerated library,
  plain arrays, tuples, lists, dictionaries (in insertion order) and a few values of other
  types.
\<close>

datatype pyval =
    JaxArray ndarray
  | NumpyArray ndarray
  | PyTuple "pyval list"
  | PyList "pyval list"
  | PyDict "(string \<times> pyval) list"
  | PyInt int
  | PyFloat real
  | PyBool bool
  | PyNone

text \<open>Actions are plain arrays or Python integers.\<close>

datatype pyaction = Array_act ndarray | Int_act int

fun as_array :: "pyaction \<Rightarrow> ndarray" where
  "as_array (Array_act a) = a"
| "as_array (Int_act i) = NDArray [] [Finite (real_of_int i)]"

text \<open>
  The pieces of a formatted message: literal text, \<open>{x!r}\<close>, \<open>{type(x)}\<close> of an action
  and \<open>{x}\<close> of a value.
\<close>

datatype fragment = Fmt_lit string | Fmt_repr pyaction | Fmt_type pyaction | Fmt_str pyval

datatype error =
    AssertionError "fragment list"
  | TypeError "fragment list"
  | ValueError
  | AttributeError string
  | NotImplementedError

text \<open>
  \<open>np.clip(a, a_min, a_max)\<close> is \<open>minimum(maximum(a, a_min), a_max)\<close> on the operands
  broadcast to one shape, and a ValueError when the shapes are not compatible.
\<close>

definition np_clip :: "ndarray \<Rightarrow> ndarray \<Rightarrow> ndarray \<Rightarrow> error + ndarray" where
  "np_clip a a_min a_max =
     (case broadcast_shapes (shape a) (shape a_min) of
        None \<Rightarrow> Inl ValueError
      | Some s \<Rightarrow>
          (case broadcast_shapes s (shape a_max) of
             None \<Rightarrow> Inl ValueError
           | Some t \<Rightarrow>
               Inr (NDArray t (map3 clip1 (broadcast_to a t) (broadcast_to a_min t)
                                  (broadcast_to a_max t)))))"

section \<open>Spaces and environments\<close>

text \<open>
  The space classes are not part of the sources at hand. A space is given by its class,
  by its bounds when it is a \<open>Box\<close>, and by its membership test \<open>contains\<close>.
\<close>

datatype space_class =
  Discrete | MultiBinary | MultiDiscrete | Text | Tuple_space | Dict_space

datatype 'a space =
    Box (low: ndarray) (high: ndarray) (contains: "'a \<Rightarrow> bool")
  | Non_box (space_class: space_class) (contains: "'a \<Rightarrow> bool")

fun is_Box :: "'a space \<Rightarrow> bool" where
  "is_Box (Box lo hi c) = True"
| "is_Box (Non_box k c) = False"

text \<open>
  An array lies in the bounds \<open>lo\<close>, \<open>hi\<close> when it has their shape and every element lies
  between the corresponding elements of \<open>lo\<close> and \<open>hi\<close>. The bounds of a space are well
  formed when they are arrays of one shape with \<open>lo\<close> below \<open>hi\<close> everywhere (so that no
  bound is NaN).
\<close>

definition within_bounds :: "ndarray \<Rightarrow> ndarray \<Rightarrow> ndarray \<Rightarrow> bool" where
  "within_bounds a lo hi =
     (shape a = shape lo \<and> shape a = shape hi \<and>
      list_all2 fle (data lo) (data a) \<and> list_all2 fle (data a) (data hi))"

definition box_ok :: "ndarray \<Rightarrow> ndarray \<Rightarrow> bool" where
  "box_ok lo hi =
     (array_ok lo \<and> array_ok hi \<and> shape hi = shape lo \<and>
      list_all2 fle (data lo) (data hi))"

text \<open>
  What a wrapper reads of the environment it wraps: of a single environment its two
  spaces, of a vector environment the batched spaces, the spaces of one instance and the
  number of instances.
\<close>

datatype gym_env =
  Env (env_action_space: "pyaction space") (env_observation_space: "ndarray space")

datatype vector_env =
  VectorEnv (vec_action_space: "pyaction space") (vec_observation_space: "ndarray space")
    (single_action_space: "pyaction space") (single_observation_space: "ndarray space")
    (num_envs: nat)

section \<open>The action-clip wrapper\<close>

datatype ClipAction_obj = ClipAction_obj gym_env

datatype VectorClipAction_obj = VectorClipAction_obj vector_env

definition ClipAction_init :: "gym_env \<Rightarrow> error + ClipAction_obj" where
  "ClipAction_init env =
     (if is_Box (env_action_space env) then Inr (ClipAction_obj env)
      else Inl (AssertionError []))"

definition VectorClipAction_init :: "vector_env \<Rightarrow> error + VectorClipAction_obj" where
  "VectorClipAction_init env =
     (if \<not> is_Box (vec_action_space env) then Inl (AssertionError [])
      else if \<not> is_Box (single_action_space env) then Inl (AssertionError [])
      else Inr (VectorClipAction_obj env))"

text \<open>The argument of \<open>ClipAction\<close> is a single environment or a vector environment.\<close>

fun ClipAction :: "gym_env + vector_env \<Rightarrow> error + (ClipAction_obj + VectorClipAction_obj)" where
  "ClipAction (Inr venv) = map_sum id Inr (VectorClipAction_init venv)"
| "ClipAction (Inl env) = map_sum id Inl (ClipAction_init env)"

text \<open>
  A wrapper's \<open>action_space\<close> is the one of the wrapped environment; \<open>low\<close> and \<open>high\<close>
  are attributes of a \<open>Box\<close> only.
\<close>

definition clip_to_space :: "pyaction space \<Rightarrow> pyaction \<Rightarrow> error + ndarray" where
  "clip_to_space sp a =
     (case sp of
        Box lo hi c \<Rightarrow> np_clip (as_array a) lo hi
      | Non_box k c \<Rightarrow> Inl (AttributeError ''low''))"

fun action :: "ClipAction_obj \<Rightarrow> pyaction \<Rightarrow> error + ndarray" where
  "action (ClipAction_obj env) a = clip_to_space (env_action_space env) a"

fun actions :: "VectorClipAction_obj \<Rightarrow> pyaction \<Rightarrow> error + ndarray" where
  "actions (VectorClipAction_obj env) a = clip_to_space (vec_action_space env) a"

section \<open>The observation-flatten wrapper\<close>

definition np_flatten :: "ndarray \<Rightarrow> ndarray" where
  "np_flatten a = NDArray [prod_list (shape a)] (data a)"

definition np_stack :: "nat \<Rightarrow> ndarray \<Rightarrow> ndarray" where
  "np_stack n a = NDArray (n # shape a) (concat (replicate n (data a)))"

text \<open>
  Modelled from the spec: \<open>spaces.flatten_space\<close>, \<open>spaces.flatten\<close> and
  \<open>batch_space\<close> are not among the sources at hand. For a bounded-real space the flattened
  space has the single axis of length the number of elements (shape \<open>(96, 96, 3)\<close> becomes
  \<open>(27648,)\<close>), \<open>flatten\<close> returns the 1-dimensional array of the elements of the value it
  is given, and the batched space of \<open>n\<close> instances has the extra leading axis \<open>n\<close>
  (\<open>(8, 27648)\<close>). The spec describes no other space class: there the model gives \<open>None\<close>.
\<close>

fun flatten_space :: "ndarray space \<Rightarrow> ndarray space option" where
  "flatten_space (Box lo hi c) =
     Some (Box (np_flatten lo) (np_flatten hi) (\<lambda>x. within_bounds x (np_flatten lo) (np_flatten hi)))"
| "flatten_space (Non_box k c) = None"

fun flatten :: "ndarray space \<Rightarrow> ndarray \<Rightarrow> ndarray option" where
  "flatten (Box lo hi c) x = Some (np_flatten x)"
| "flatten (Non_box k c) x = None"

fun batch_space :: "ndarray space \<Rightarrow> nat \<Rightarrow> ndarray space option" where
  "batch_space (Box lo hi c) n =
     Some (Box (np_stack n lo) (np_stack n hi) (\<lambda>x. within_bounds x (np_stack n lo) (np_stack n hi)))"
| "batch_space (Non_box k c) n = None"

datatype FlattenObservation_obj =
  FlattenObservation_obj (wrapped_env: gym_env) (wrapper_observation_space: "ndarray space")

datatype VectorFlattenObservation_obj =
  VectorFlattenObservation_obj (wrapped_vector_env: vector_env)
    (wrapper_single_observation_space: "ndarray space")
    (wrapper_batched_observation_space: "ndarray space")

definition FlattenObservation_init :: "gym_env \<Rightarrow> FlattenObservation_obj option" where
  "FlattenObservation_init env =
     map_option (FlattenObservation_obj env) (flatten_space (env_observation_space env))"

definition VectorFlattenObservation_init :: "vector_env \<Rightarrow> VectorFlattenObservation_obj option" where
  "VectorFlattenObservation_init env =
     (case flatten_space (single_observation_space env) of
        None \<Rightarrow> None
      | Some sso \<Rightarrow>
          map_option (VectorFlattenObservation_obj env sso) (batch_space sso (num_envs env)))"

fun FlattenObservation ::
  "gym_env + vector_env \<Rightarrow> (FlattenObservation_obj + VectorFlattenObservation_obj) option" where
  "FlattenObservation (Inr venv) = map_option Inr (VectorFlattenObservation_init venv)"
| "FlattenObservation (Inl env) = map_option Inl (FlattenObservation_init env)"

definition flatten_observation :: "FlattenObservation_obj \<Rightarrow> ndarray \<Rightarrow> ndarray option" where
  "flatten_observation self obs = flatten (env_observation_space (wrapped_env self)) obs"

definition vector_flatten_observation ::
  "VectorFlattenObservation_obj \<Rightarrow> ndarray \<Rightarrow> ndarray option" where
  "vector_flatten_observation self obs =
     flatten (vec_observation_space (wrapped_vector_env self)) obs"

section \<open>The array-representation normalizer\<close>

text \<open>
  \<open>_convert_jax_to_numpy\<close>. The generator expressions convert the elements from left to
  right and stop at the first element that raises. The value formatted into the message
  of the TypeError is kept as a fragment of the message.
\<close>

fun convert_jax_to_numpy :: "pyval \<Rightarrow> error + pyval"
  and convert_elements :: "pyval list \<Rightarrow> error + pyval list"
  and convert_items :: "(string \<times> pyval) list \<Rightarrow> error + (string \<times> pyval) list" where
  "convert_jax_to_numpy (JaxArray a) = Inr (NumpyArray a)"
| "convert_jax_to_numpy (PyTuple es) = map_sum id PyTuple (convert_elements es)"
| "convert_jax_to_numpy (PyList es) = map_sum id PyList (convert_elements es)"
| "convert_jax_to_numpy (PyDict kvs) = map_sum id PyDict (convert_items kvs)"
| "convert_jax_to_numpy element =
     Inl (TypeError [Fmt_lit ''Cannot convert '', Fmt_str element, Fmt_lit '' to numpy''])"
| "convert_elements [] = Inr []"
| "convert_elements (e # es) =
     (case convert_jax_to_numpy e of
        Inl err \<Rightarrow> Inl err
      | Inr e' \<Rightarrow>
          (case convert_elements es of Inl err \<Rightarrow> Inl err | Inr es' \<Rightarrow> Inr (e' # es')))"
| "convert_items [] = Inr []"
| "convert_items ((k, v) # kvs) =
     (case convert_jax_to_numpy v of
        Inl err \<Rightarrow> Inl err
      | Inr v' \<Rightarrow>
          (case convert_items kvs of Inl err \<Rightarrow> Inl err | Inr kvs' \<Rightarrow> Inr ((k, v') # kvs')))"

section \<open>The adapter\<close>

text \<open>
  The function bundle: pure functions of an explicit state. A reward is a scalar and a
  termination flag a boolean, as a Python number or a 0-dimensional array; \<open>float\<close> and
  \<open>bool\<close> of such a value do not raise.
\<close>

datatype scalar = Scalar_int int | Scalar_float real | Scalar_bool bool

fun py_float :: "scalar \<Rightarrow> real" where
  "py_float (Scalar_int i) = real_of_int i"
| "py_float (Scalar_float x) = x"
| "py_float (Scalar_bool b) = (if b then 1 else 0)"

fun py_bool :: "scalar \<Rightarrow> bool" where
  "py_bool (Scalar_int i) = (i \<noteq> 0)"
| "py_bool (Scalar_float x) = (x \<noteq> 0)"
| "py_bool (Scalar_bool b) = b"

text \<open>
  \<open>render_init\<close> acquires the render state and \<open>render_close\<close> releases it; the adapter
  records these calls, in order, in \<open>render_calls\<close>.
\<close>

record ('s, 'k, 'r) FuncEnv =
  initial :: "'k \<Rightarrow> 's"
  transition :: "'s \<Rightarrow> pyaction \<Rightarrow> 'k \<Rightarrow> 's"
  observation :: "'s \<Rightarrow> pyval"
  reward :: "'s \<Rightarrow> pyaction \<Rightarrow> 's \<Rightarrow> scalar"
  terminal :: "'s \<Rightarrow> scalar"
  state_info :: "'s \<Rightarrow> pyval"
  step_info :: "'s \<Rightarrow> pyaction \<Rightarrow> 's \<Rightarrow> pyval"
  render_init :: "'r"
  render_image :: "'s \<Rightarrow> 'r option \<Rightarrow> 'r \<times> pyval"

datatype 'r render_call = Render_init | Render_image "'r option" | Render_close 'r

text \<open>The random streams of the accelerated library: a key from a seed, and the split of a key in two.\<close>

record 'k jax_random =
  PRNGKey :: "nat \<Rightarrow> 'k"
  jrng_split :: "'k \<Rightarrow> 'k \<times> 'k"

text \<open>
  The fields of the adapter that its operations read. \<open>state\<close> is \<open>None\<close> as long as the
  attribute has not been assigned.
\<close>

record ('s, 'k, 'r) JaxEnv =
  func_env :: "('s, 'k, 'r) FuncEnv"
  observation_space :: "pyval space"
  action_space :: "pyaction space"
  render_mode :: "string option"
  is_box_action_space :: bool
  render_state :: "'r option"
  rng :: 'k
  state :: "'s option"
  render_calls :: "'r render_call list"

text \<open>
  \<open>np_random.integers(low, high)\<close> draws from \<open>low\<close> (inclusive) to \<open>high\<close> (exclusive).
  The constructor draws its seed with \<open>integers(0, 2**32 - 1, dtype="uint32")\<close>.
\<close>

definition integers :: "nat \<Rightarrow> nat \<Rightarrow> nat set" where
  "integers low_bound high_bound = {low_bound ..< high_bound}"

definition default_seeds :: "nat set" where
  "default_seeds = integers 0 (2 ^ 32 - 1)"

text \<open>The constructor, given the seed that was drawn.\<close>

definition JaxEnv_init ::
  "'k jax_random \<Rightarrow> ('s, 'k, 'r) FuncEnv \<Rightarrow> pyval space \<Rightarrow> pyaction space \<Rightarrow> string option \<Rightarrow>
     nat \<Rightarrow> ('s, 'k, 'r) JaxEnv" where
  "JaxEnv_init J fe obs_space act_space mode seed =
     \<lparr> func_env = fe,
       observation_space = obs_space,
       action_space = act_space,
       render_mode = mode,
       is_box_action_space = is_Box act_space,
       render_state = (if mode = Some ''rgb_array'' then Some (render_init fe) else None),
       rng = PRNGKey J seed,
       state = None,
       render_calls = (if mode = Some ''rgb_array'' then [Render_init] else []) \<rparr>"

text \<open>The adapters a construction can give: one for each seed that can be drawn.\<close>

definition JaxEnv_new ::
  "'k jax_random \<Rightarrow> ('s, 'k, 'r) FuncEnv \<Rightarrow> pyval space \<Rightarrow> pyaction space \<Rightarrow> string option \<Rightarrow>
     ('s, 'k, 'r) JaxEnv set" where
  "JaxEnv_new J fe obs_space act_space mode =
     JaxEnv_init J fe obs_space act_space mode ` default_seeds"

text \<open>
  \<open>reset\<close>. The reset of the base class reseeds only the generator \<open>np_random\<close>, which
  no operation of the adapter reads; it is left out. A seed is a natural number.
\<close>

definition reset ::
  "'k jax_random \<Rightarrow> ('s, 'k, 'r) JaxEnv \<Rightarrow> nat option \<Rightarrow>
     (error + pyval \<times> pyval) \<times> ('s, 'k, 'r) JaxEnv" where
  "reset J self seed =
     (let self1 = (case seed of None \<Rightarrow> self | Some sd \<Rightarrow> self\<lparr>rng := PRNGKey J sd\<rparr>);
          (key, rest) = jrng_split J (rng self1);
          self2 = self1\<lparr>rng := rest\<rparr>;
          st = initial (func_env self2) key;
          self3 = self2\<lparr>state := Some st\<rparr>;
          obs = observation (func_env self3) st;
          info = state_info (func_env self3) st
      in case convert_jax_to_numpy obs of
           Inl err \<Rightarrow> (Inl err, self3)
         | Inr obs' \<Rightarrow> (Inr (obs', info), self3))"

text \<open>Lines 71 to 77 of \<open>step\<close>: the action the rest of \<open>step\<close> works with, or the error.\<close>

definition step_action :: "('s, 'k, 'r) JaxEnv \<Rightarrow> pyaction \<Rightarrow> error + pyaction" where
  "step_action self a =
     (if is_box_action_space self then
        (case action_space self of
           Non_box k c \<Rightarrow> Inl (AssertionError [])
         | Box lo hi c \<Rightarrow> map_sum id Array_act (np_clip (as_array a) lo hi))
      else if contains (action_space self) a then Inr a
      else Inl (AssertionError [Fmt_repr a, Fmt_lit '' ('', Fmt_type a, Fmt_lit '') invalid'']))"

text \<open>Lines 79 to 90 of \<open>step\<close>, for the action \<open>act\<close> that lines 71 to 77 leave.\<close>

definition step_with ::
  "'k jax_random \<Rightarrow> ('s, 'k, 'r) JaxEnv \<Rightarrow> pyaction \<Rightarrow>
     (error + pyval \<times> real \<times> bool \<times> bool \<times> pyval) \<times> ('s, 'k, 'r) JaxEnv" where
  "step_with J self act =
     (let (key, rest) = jrng_split J (rng self);
          self1 = self\<lparr>rng := rest\<rparr>
      in case state self1 of
           None \<Rightarrow> (Inl (AttributeError ''state''), self1)
         | Some st \<Rightarrow>
             (let next_state = transition (func_env self1) st act key;
                  obs = observation (func_env self1) st;
                  rew = reward (func_env self1) st act next_state;
                  terminated = terminal (func_env self1) next_state;
                  info = step_info (func_env self1) st act next_state;
                  self2 = self1\<lparr>state := Some next_state\<rparr>
              in case convert_jax_to_numpy obs of
                   Inl err \<Rightarrow> (Inl err, self2)
                 | Inr obs' \<Rightarrow>
                     (Inr (obs', py_float rew, py_bool terminated, False, info), self2)))"

definition step ::
  "'k jax_random \<Rightarrow> ('s, 'k, 'r) JaxEnv \<Rightarrow> pyaction \<Rightarrow>
     (error + pyval \<times> real \<times> bool \<times> bool \<times> pyval) \<times> ('s, 'k, 'r) JaxEnv" where
  "step J self a =
     (case step_action self a of
        Inl err \<Rightarrow> (Inl err, self)
      | Inr act \<Rightarrow> step_with J self act)"

definition render ::
  "('s, 'k, 'r) JaxEnv \<Rightarrow> (error + pyval) \<times> ('s, 'k, 'r) JaxEnv" where
  "render self =
     (if render_mode self = Some ''rgb_array'' then
        (case state self of
           None \<Rightarrow> (Inl (AttributeError ''state''), self)
         | Some st \<Rightarrow>
             (let (rs, image) = render_image (func_env self) st (render_state self)
              in (Inr image,
                  self\<lparr>render_state := Some rs,
                       render_calls := render_calls self @ [Render_image (render_state self)]\<rparr>)))
      else (Inl NotImplementedError, self))"

definition close :: "('s, 'k, 'r) JaxEnv \<Rightarrow> ('s, 'k, 'r) JaxEnv" where
  "close self =
     (case render_state self of
        None \<Rightarrow> self
      | Some rs \<Rightarrow>
          self\<lparr>render_state := None, render_calls := render_calls self @ [Render_close rs]\<rparr>)"

section \<open>The normalizer as the specification describes it\<close>

text \<open>
  The values of a type the normalizer does not recognise, in the order in which it meets
  them, and the value with every array of the accelerated library replaced by a plain
  array, the containers, the order of their elements and the keys kept.
\<close>

fun unsupported_values :: "pyval \<Rightarrow> pyval list" where
  "unsupported_values (JaxArray a) = []"
| "unsupported_values (PyTuple es) = concat (map unsupported_values es)"
| "unsupported_values (PyList es) = concat (map unsupported_values es)"
| "unsupported_values (PyDict kvs) = concat (map (\<lambda>kv. unsupported_values (snd kv)) kvs)"
| "unsupported_values v = [v]"

fun as_numpy :: "pyval \<Rightarrow> pyval" where
  "as_numpy (JaxArray a) = NumpyArray a"
| "as_numpy (PyTuple es) = PyTuple (map as_numpy es)"
| "as_numpy (PyList es) = PyList (map as_numpy es)"
| "as_numpy (PyDict kvs) = PyDict (map (\<lambda>kv. (fst kv, as_numpy (snd kv))) kvs)"
| "as_numpy v = v"

definition cannot_convert :: "pyval \<Rightarrow> error" where
  "cannot_convert v = TypeError [Fmt_lit ''Cannot convert '', Fmt_str v, Fmt_lit '' to numpy'']"

definition normalized :: "pyval list \<Rightarrow> 'a \<Rightarrow> error + 'a" where
  "normalized bad result = (case bad of [] \<Rightarrow> Inr result | x # xs \<Rightarrow> Inl (cannot_convert x))"

section \<open>Example environments\<close>

text \<open>A random stream on the natural numbers, and a function bundle that counts steps.\<close>

definition example_random :: "nat jax_random" where
  "example_random = \<lparr> PRNGKey = (\<lambda>seed. seed), jrng_split = (\<lambda>k. (2 * k + 1, 2 * k + 2)) \<rparr>"

definition scalar_array :: "int \<Rightarrow> pyval" where
  "scalar_array i = JaxArray (NDArray [] [Finite (real_of_int i)])"

definition counter_env :: "(int, nat, nat) FuncEnv" where
  "counter_env =
     \<lparr> initial = (\<lambda>key. int key),
       transition = (\<lambda>st a key. st + 1),
       observation = (\<lambda>st. scalar_array st),
       reward = (\<lambda>st a nxt. Scalar_int (nxt - st)),
       terminal = (\<lambda>st. Scalar_bool (10 \<le> st)),
       state_info = (\<lambda>st. PyDict []),
       step_info = (\<lambda>st a nxt. PyDict [(''next'', PyInt nxt)]),
       render_init = 0,
       render_image = (\<lambda>st rs. (case rs of None \<Rightarrow> 0 | Some r \<Rightarrow> r + 1, scalar_array st)) \<rparr>"

definition two_actions :: "pyaction space" where
  "two_actions = Non_box Discrete (\<lambda>a. a = Int_act 0 \<or> a = Int_act 1)"

definition any_observation :: "pyval space" where
  "any_observation = Non_box Dict_space (\<lambda>v. True)"

text \<open>The counting adapter after \<open>reset(seed=3)\<close>, and an adapter that renders images.\<close>

definition counter_adapter :: "(int, nat, nat) JaxEnv" where
  "counter_adapter =
     snd (reset example_random
            (JaxEnv_init example_random counter_env any_observation two_actions None 7) (Some 3))"

definition image_adapter :: "(int, nat, nat) JaxEnv" where
  "image_adapter =
     JaxEnv_init example_random counter_env any_observation two_actions (Some ''rgb_array'') 7"

definition nested_observation :: pyval where
  "nested_observation =
     PyDict [(''position'', PyTuple [scalar_array 1, scalar_array 2]),
             (''history'', PyList [scalar_array 3])]"

text \<open>The space of the scenario: four components between -1 and 1.\<close>

definition unit_low :: ndarray where
  "unit_low = NDArray [4] [Finite (-1), Finite (-1), Finite (-1), Finite (-1)]"

definition unit_high :: ndarray where
  "unit_high = NDArray [4] [Finite 1, Finite 1, Finite 1, Finite 1]"

definition any_action :: "pyaction \<Rightarrow> bool" where
  "any_action a = True"

definition bounded :: "ndarray \<Rightarrow> ndarray \<Rightarrow> ndarray space" where
  "bounded lo hi = Box lo hi (\<lambda>x. within_bounds x lo hi)"

definition wide_action :: ndarray where
  "wide_action = NDArray [4] [Finite 5, Finite 2, Finite (-10), Finite 0]"

text \<open>A vector environment of two instances with observations of three components.\<close>

definition pair_low :: ndarray where
  "pair_low = NDArray [3] [Finite 0, Finite 0, Finite 0]"

definition pair_high :: ndarray where
  "pair_high = NDArray [3] [Finite 1, Finite 1, Finite 1]"

definition pair_vector_env :: vector_env where
  "pair_vector_env =
     VectorEnv two_actions (bounded (np_stack 2 pair_low) (np_stack 2 pair_high))
       two_actions (bounded pair_low pair_high) 2"

definition pair_observation :: ndarray where
  "pair_observation =
     NDArray [2, 3] [Finite 0, Finite (1 / 2), Finite 1, Finite 1, Finite 0, Finite 0]"

text \<open>An action with a NaN and two infinite components.\<close>

definition nan_action :: ndarray where
  "nan_action = NDArray [4] [NaN, Finite 2, NegInf, PosInf]"

text \<open>
  A function bundle whose step info is the action it was given, an adapter over the space
  of the scenario whose membership test accepts nothing, and an adapter over a space of
  another class whose membership test accepts everything; both after \<open>reset(seed=3)\<close>.
\<close>

definition never_member :: "pyaction \<Rightarrow> bool" where
  "never_member a = False"

definition echo_env :: "(int, nat, nat) FuncEnv" where
  "echo_env = counter_env\<lparr>step_info := (\<lambda>st a nxt. NumpyArray (as_array a))\<rparr>"

definition box_adapter :: "(int, nat, nat) JaxEnv" where
  "box_adapter =
     snd (reset example_random
            (JaxEnv_init example_random echo_env any_observation
               (Box unit_low unit_high never_member) None 7) (Some 3))"

definition multi_adapter :: "(int, nat, nat) JaxEnv" where
  "multi_adapter =
     snd (reset example_random
            (JaxEnv_init example_random echo_env any_observation
               (Non_box MultiDiscrete any_action) None 7) (Some 3))"

lemmas example_defs =
  counter_adapter_def reset_def JaxEnv_init_def example_random_def counter_env_def
  scalar_array_def two_actions_def Let_def

lemmas adapter_defs =
  box_adapter_def multi_adapter_def echo_env_def never_member_def any_action_def
  reset_def JaxEnv_init_def example_random_def counter_env_def scalar_array_def Let_def

section \<open>Clipping operands of one shape\<close>

lemma chunks_concat: "length d = k * n \<Longrightarrow> concat (chunks k n d) = d"
  by (induction k arbitrary: d) auto

lemma chunks_len: "length d = k * n \<Longrightarrow> x \<in> set (chunks k n d) \<Longrightarrow> length x = n"
proof (induction k arbitrary: d)
  case 0 then show ?case by simp
next
  case (Suc k)
  have len: "length (drop n d) = k * n" using Suc.prems(1) by simp
  from Suc.prems(2) have "x = take n d \<or> x \<in> set (chunks k n (drop n d))" by simp
  then show ?case
  proof
    assume "x = take n d" then show ?thesis using Suc.prems(1) by simp
  next
    assume "x \<in> set (chunks k n (drop n d))"
    then show ?thesis using Suc.IH [OF len] by simp
  qed
qed

lemma expand_same: "length d = prod_list s \<Longrightarrow> expand s s d = d"
proof (induction s arbitrary: d)
  case Nil then show ?case by simp
next
  case (Cons a s)
  have "map (expand s s) (chunks a (prod_list s) d) = chunks a (prod_list s) d"
    using Cons chunks_len[of d a "prod_list s"] by (intro map_idI) auto
  then show ?case using Cons.prems by (simp add: chunks_concat)
qed

lemma broadcast_rev_same: "broadcast_rev s s = Some s"
  by (induction s) auto

lemma broadcast_shapes_same: "broadcast_shapes s s = Some s"
  by (simp add: broadcast_shapes_def broadcast_rev_same)

lemma broadcast_to_same: "array_ok a \<Longrightarrow> broadcast_to a (shape a) = data a"
  by (simp add: broadcast_to_def pad_shape_def array_ok_def expand_same)

lemma np_clip_same_shape:
  assumes "array_ok a" "array_ok lo" "array_ok hi" "shape lo = shape a" "shape hi = shape a"
  shows "np_clip a lo hi = Inr (NDArray (shape a) (map3 clip1 (data a) (data lo) (data hi)))"
  using assms broadcast_to_same[of a] broadcast_to_same[of lo] broadcast_to_same[of hi]
  by (simp add: np_clip_def broadcast_shapes_same)

lemma clip1_lower: "x \<noteq> NaN \<Longrightarrow> fle l h \<Longrightarrow> fle l (clip1 x l h)"
  by (cases x; cases l; cases h) (auto simp: clip1_def fmaximum_def fminimum_def)

lemma clip1_upper: "x \<noteq> NaN \<Longrightarrow> fle l h \<Longrightarrow> fle (clip1 x l h) h"
  by (cases x; cases l; cases h) (auto simp: clip1_def fmaximum_def fminimum_def)

lemma clip1_id: "fle l x \<Longrightarrow> fle x h \<Longrightarrow> clip1 x l h = x"
  by (cases x; cases l; cases h) (auto simp: clip1_def fmaximum_def fminimum_def)

lemma clip1_NaN: "clip1 NaN l h = NaN"
  by (simp add: clip1_def fmaximum_def fminimum_def)

lemma map3_clip_lower:
  "length xs = length ls \<Longrightarrow> length ls = length hs \<Longrightarrow> NaN \<notin> set xs \<Longrightarrow>
   list_all2 fle ls hs \<Longrightarrow> list_all2 fle ls (map3 clip1 xs ls hs)"
  by (induction xs ls hs rule: list_induct3) (auto simp: clip1_lower)

lemma map3_clip_upper:
  "length xs = length ls \<Longrightarrow> length ls = length hs \<Longrightarrow> NaN \<notin> set xs \<Longrightarrow>
   list_all2 fle ls hs \<Longrightarrow> list_all2 fle (map3 clip1 xs ls hs) hs"
  by (induction xs ls hs rule: list_induct3) (auto simp: clip1_upper)

lemma map3_clip_id:
  "list_all2 fle ls xs \<Longrightarrow> list_all2 fle xs hs \<Longrightarrow> map3 clip1 xs ls hs = xs"
proof (induction xs arbitrary: ls hs)
  case Nil then show ?case by simp
next
  case (Cons x xs)
  then show ?case by (cases ls; cases hs) (auto simp: clip1_id)
qed

lemma np_clip_bounds:
  assumes "box_ok lo hi" "array_ok a" "shape a = shape lo"
  shows "\<exists>r. np_clip a lo hi = Inr r \<and> shape r = shape a \<and>
            (NaN \<notin> set (data a) \<longrightarrow> within_bounds r lo hi) \<and>
            (within_bounds a lo hi \<longrightarrow> r = a)"
proof -
  let ?r = "NDArray (shape a) (map3 clip1 (data a) (data lo) (data hi))"
  have ok: "array_ok lo" "array_ok hi" "shape hi = shape lo"
    and le: "list_all2 fle (data lo) (data hi)"
    using assms(1) by (simp_all add: box_ok_def)
  have len: "length (data a) = length (data lo)" "length (data lo) = length (data hi)"
    using ok assms(2,3) by (simp_all add: array_ok_def)
  have r: "np_clip a lo hi = Inr ?r"
    using np_clip_same_shape[of a lo hi] ok assms(2,3) by simp
  have w: "NaN \<notin> set (data a) \<longrightarrow> within_bounds ?r lo hi"
    using map3_clip_lower[OF len _ le] map3_clip_upper[OF len _ le] ok assms(3)
    by (simp add: within_bounds_def)
  have i: "within_bounds a lo hi \<longrightarrow> ?r = a"
    by (cases a) (auto simp: within_bounds_def map3_clip_id)
  show ?thesis using r w i by auto
qed

text \<open>The scenario of the wrapper's documentation, and an action with a NaN component.\<close>

lemma clip_scenario:
  "action (ClipAction_obj (Env (Box unit_low unit_high any_action) (bounded unit_low unit_high)))
     (Array_act wide_action) = Inr (NDArray [4] [Finite 1, Finite 1, Finite (-1), Finite 0])"
  using np_clip_same_shape [of wide_action unit_low unit_high]
  by (simp add: wide_action_def unit_low_def unit_high_def clip_to_space_def array_ok_def
      clip1_def fmaximum_def fminimum_def)

lemma wide_clip:
  "np_clip wide_action unit_low unit_high
     = Inr (NDArray [4] [Finite 1, Finite 1, Finite (-1), Finite 0])"
  using np_clip_same_shape [of wide_action unit_low unit_high]
  by (simp add: wide_action_def unit_low_def unit_high_def array_ok_def
      clip1_def fmaximum_def fminimum_def)

lemma nan_clip:
  "np_clip nan_action unit_low unit_high = Inr (NDArray [4] [NaN, Finite 1, Finite (-1), Finite 1])"
  using np_clip_same_shape [of nan_action unit_low unit_high]
  by (simp add: nan_action_def unit_low_def unit_high_def array_ok_def
      clip1_def fmaximum_def fminimum_def)

section \<open>The normalizer meets its description\<close>

lemma normalized_Nil: "normalized [] r = Inr r"
  by (simp add: normalized_def)

lemma normalized_append:
  "normalized (xs @ ys) (f a b) =
     (case normalized xs a of
        Inl err \<Rightarrow> Inl err
      | Inr a' \<Rightarrow> (case normalized ys b of Inl err \<Rightarrow> Inl err | Inr b' \<Rightarrow> Inr (f a' b')))"
  by (cases xs; cases ys) (simp_all add: normalized_def)

lemma normalized_map: "map_sum id f (normalized xs r) = normalized xs (f r)"
  by (cases xs) (simp_all add: normalized_def)

lemma convert_characterised:
  "convert_jax_to_numpy v = normalized (unsupported_values v) (as_numpy v)"
  "convert_elements es = normalized (concat (map unsupported_values es)) (map as_numpy es)"
  "convert_items kvs = normalized (concat (map (\<lambda>kv. unsupported_values (snd kv)) kvs))
                          (map (\<lambda>kv. (fst kv, as_numpy (snd kv))) kvs)"
proof (induction v and es and kvs rule: convert_jax_to_numpy_convert_elements_convert_items.induct)
  case (7 e es)
  show ?case
    using 7 normalized_append [of "unsupported_values e" "concat (map unsupported_values es)"
        Cons "as_numpy e" "map as_numpy es"]
    by (simp split: sum.splits)
next
  case (9 k v kvs)
  show ?case
    using 9 normalized_append [of "unsupported_values v"
        "concat (map (\<lambda>kv. unsupported_values (snd kv)) kvs)"
        "\<lambda>x xs. (k, x) # xs" "as_numpy v" "map (\<lambda>kv. (fst kv, as_numpy (snd kv))) kvs"]
    by (simp split: sum.splits)
qed (simp_all add: normalized_map normalized_Nil, simp_all add: normalized_def cannot_convert_def)

section \<open>Shapes of the flattened observations\<close>

lemma flatten_observation_shape:
  assumes "env_observation_space env = Box lo hi c"
  shows "\<exists>w. FlattenObservation_init env = Some w \<and>
             shape (low (wrapper_observation_space w)) = [prod_list (shape lo)] \<and>
             map_option shape (flatten_observation w obs) = Some [prod_list (shape obs)]"
  using assms by (simp add: FlattenObservation_init_def flatten_observation_def np_flatten_def)

lemma vector_flatten_observation_shape:
  assumes "single_observation_space env = Box lo hi c"
    and "vec_observation_space env = Box blo bhi bc"
  shows "\<exists>w. VectorFlattenObservation_init env = Some w \<and>
             shape (low (wrapper_batched_observation_space w)) = [num_envs env, prod_list (shape lo)] \<and>
             map_option shape (vector_flatten_observation w obs) = Some [prod_list (shape obs)]"
  using assms
  by (simp add: VectorFlattenObservation_init_def vector_flatten_observation_def np_flatten_def
      np_stack_def)

text \<open>
  The example of the wrapper's documentation: eight instances with observations of shape
  \<open>(96, 96, 3)\<close>. The declared space has shape \<open>(8, 27648)\<close>, the flattened observation
  the shape \<open>(221184,)\<close>.
\<close>

lemma car_racing_shapes:
  assumes "single_observation_space env = Box lo hi c"
    and "vec_observation_space env = Box blo bhi bc"
    and "num_envs env = 8" and "shape lo = [96, 96, 3]" and "shape obs = [8, 96, 96, 3]"
  shows "\<exists>w. VectorFlattenObservation_init env = Some w \<and>
             shape (low (wrapper_batched_observation_space w)) = [8, 27648] \<and>
             map_option shape (vector_flatten_observation w obs) = Some [221184]"
  using vector_flatten_observation_shape [OF assms(1,2), of obs] assms(3,4,5) by simp

section \<open>The claims\<close>

text \<open>
  Claim C1. After a reset (the adapter holds a state \<open>st\<close>), a step whose action passes
  lines 71 to 77 and whose observation converts returns the conversion of the observation
  of \<open>st\<close>, the state before the transition; the reward, the termination flag and the info
  are computed with the state \<open>nxt\<close> that the transition gives, which becomes the state
  of the adapter.
\<close>

theorem step_observation_pre_transition:
  assumes "state self = Some st"
    and "step_action self a = Inr act"
    and "convert_jax_to_numpy (observation (func_env self) st) = Inr obs"
    and "nxt = transition (func_env self) st act (fst (jrng_split J (rng self)))"
  shows "step J self a =
           (Inr (obs, py_float (reward (func_env self) st act nxt),
                 py_bool (terminal (func_env self) nxt), False,
                 step_info (func_env self) st act nxt),
            self\<lparr>rng := snd (jrng_split J (rng self)), state := Some nxt\<rparr>)"
  using assms by (simp add: step_def step_with_def Let_def split: prod.splits)

text \<open>
  On the counting adapter in state 7 the step returns the observation 7, not the
  observation 8 of the state it moves to.
\<close>

theorem step_observation_pre_transition_witness:
  "state counter_adapter = Some 7 \<and>
   step_action counter_adapter (Int_act 1) = Inr (Int_act 1) \<and>
   convert_jax_to_numpy (observation (func_env counter_adapter) 7) = Inr (NumpyArray (NDArray [] [Finite 7])) \<and>
   (8::int) = transition (func_env counter_adapter) 7 (Int_act 1)
                (fst (jrng_split example_random (rng counter_adapter))) \<and>
   fst (step example_random counter_adapter (Int_act 1)) =
     Inr (NumpyArray (NDArray [] [Finite 7]), 1, False, False, PyDict [(''next'', PyInt 8)]) \<and>
   convert_jax_to_numpy (observation (func_env counter_adapter) 8) = Inr (NumpyArray (NDArray [] [Finite 8]))"
proof -
  have h1: "state counter_adapter = Some 7" by (simp add: example_defs)
  have h2: "step_action counter_adapter (Int_act 1) = Inr (Int_act 1)"
    by (simp add: step_action_def example_defs)
  have h3: "convert_jax_to_numpy (observation (func_env counter_adapter) 7)
              = Inr (NumpyArray (NDArray [] [Finite 7]))"
    by (simp add: example_defs)
  have h4: "(8::int) = transition (func_env counter_adapter) 7 (Int_act 1)
                (fst (jrng_split example_random (rng counter_adapter)))"
    by (simp add: example_defs)
  have h5: "convert_jax_to_numpy (observation (func_env counter_adapter) 8)
              = Inr (NumpyArray (NDArray [] [Finite 8]))"
    by (simp add: example_defs)
  have "fst (step example_random counter_adapter (Int_act 1)) =
     Inr (NumpyArray (NDArray [] [Finite 7]), 1, False, False, PyDict [(''next'', PyInt 8)])"
    using step_observation_pre_transition [OF h1 h2 h3 h4]
    by (simp add: example_defs)
  with h1 h2 h3 h4 h5 show ?thesis by blast
qed

text \<open>
  Claim C3. Whenever a step returns a 5-tuple, its truncation flag is \<open>False\<close>, its reward
  is \<open>float\<close> of the reward of the function bundle and its termination flag is \<open>bool\<close> of
  the bundle's \<open>terminal\<close>, for every action, state and function bundle.
\<close>

theorem step_coerces_and_never_truncates:
  assumes "fst (step J self a) = Inr (obs, r, terminated, truncated, info)"
  shows "truncated = False \<and>
         (\<exists>st act nxt. state self = Some st \<and> step_action self a = Inr act \<and>
              nxt = transition (func_env self) st act (fst (jrng_split J (rng self))) \<and>
              r = py_float (reward (func_env self) st act nxt) \<and>
              terminated = py_bool (terminal (func_env self) nxt))"
  using assms
  by (auto simp add: step_def step_with_def Let_def split: prod.splits sum.splits option.splits)

theorem step_coerces_and_never_truncates_witness:
  "fst (step example_random counter_adapter (Int_act 1)) =
     Inr (NumpyArray (NDArray [] [Finite 7]), 1, False, False, PyDict [(''next'', PyInt 8)]) \<and>
   False = False \<and>
   (\<exists>st act nxt. state counter_adapter = Some st \<and>
        step_action counter_adapter (Int_act 1) = Inr act \<and>
        nxt = transition (func_env counter_adapter) st act
                (fst (jrng_split example_random (rng counter_adapter))) \<and>
        (1::real) = py_float (reward (func_env counter_adapter) st act nxt) \<and>
        False = py_bool (terminal (func_env counter_adapter) nxt))"
proof -
  have h: "fst (step example_random counter_adapter (Int_act 1)) =
     Inr (NumpyArray (NDArray [] [Finite 7]), 1, False, False, PyDict [(''next'', PyInt 8)])"
    by (simp add: step_def step_with_def step_action_def example_defs)
  show ?thesis using h step_coerces_and_never_truncates [OF h] by blast
qed

text \<open>
  Claim C4. When the adapter takes the membership branch (its action space is not a
  \<open>Box\<close>, as for a discrete space) and the action is not a member of the space, \<open>step\<close>
  raises the AssertionError whose message holds the \<open>repr\<close> of the action and its type,
  and the adapter is returned as it was: its state and its random stream are unchanged.
\<close>

theorem invalid_action_leaves_adapter_unchanged:
  assumes "\<not> is_box_action_space self" and "\<not> contains (action_space self) a"
  shows "step J self a =
           (Inl (AssertionError [Fmt_repr a, Fmt_lit '' ('', Fmt_type a, Fmt_lit '') invalid'']), self)"
  using assms by (simp add: step_def step_action_def)

theorem invalid_action_leaves_adapter_unchanged_witness:
  "\<not> is_box_action_space counter_adapter \<and>
   \<not> contains (action_space counter_adapter) (Int_act 5) \<and>
   step example_random counter_adapter (Int_act 5) =
     (Inl (AssertionError [Fmt_repr (Int_act 5), Fmt_lit '' ('', Fmt_type (Int_act 5),
                           Fmt_lit '') invalid'']), counter_adapter) \<and>
   state (snd (step example_random counter_adapter (Int_act 5))) = Some 7 \<and>
   rng (snd (step example_random counter_adapter (Int_act 5))) = 8"
proof -
  have h1: "\<not> is_box_action_space counter_adapter" by (simp add: example_defs)
  have h2: "\<not> contains (action_space counter_adapter) (Int_act 5)" by (simp add: example_defs)
  have h3: "state counter_adapter = Some 7" "rng counter_adapter = 8"
    by (simp_all add: example_defs)
  show ?thesis
    using h1 h2 h3 invalid_action_leaves_adapter_unchanged [OF h1 h2, of example_random]
    by simp
qed

text \<open>
  Claim C5. Two adapters constructed with the same arguments, whatever seeds their
  constructors drew, give the same result when reset with the same seed: the same
  observation and info (or the same error), and the same adapter afterwards.
\<close>

theorem reset_with_seed_deterministic:
  "reset J (JaxEnv_init J fe obs_space act_space mode entropy1) (Some seed) =
   reset J (JaxEnv_init J fe obs_space act_space mode entropy2) (Some seed)"
  by (simp add: reset_def JaxEnv_init_def Let_def split: prod.splits sum.splits)

text \<open>
  Claim C6, as amended. For a \<open>Box\<close> action space with well-formed bounds and an action
  that is an array of the shape of the space, the wrapper and its batched variant are
  constructed; when no component of the action is NaN, their action transforms return an
  array that lies component-wise within the bounds; an action that already lies within
  the bounds is returned unchanged.
\<close>

theorem clip_action_within_bounds:
  assumes "box_ok lo hi" and "array_ok a" and "shape a = shape lo"
  shows "\<exists>w v r.
           ClipAction (Inl (Env (Box lo hi c) ob)) = Inr (Inl w) \<and>
           ClipAction (Inr (VectorEnv (Box lo hi c) vob (Box slo shi sc) sob n)) = Inr (Inr v) \<and>
           action w (Array_act a) = Inr r \<and>
           actions v (Array_act a) = Inr r \<and>
           (NaN \<notin> set (data a) \<longrightarrow> within_bounds r lo hi) \<and>
           (within_bounds a lo hi \<longrightarrow> r = a)"
  using np_clip_bounds [OF assms]
  by (auto simp add: clip_to_space_def ClipAction_init_def VectorClipAction_init_def)

theorem clip_action_within_bounds_witness:
  "box_ok unit_low unit_high \<and> array_ok wide_action \<and> shape wide_action = shape unit_low \<and>
   NaN \<notin> set (data wide_action) \<and>
   (\<exists>w v r.
      ClipAction (Inl (Env (Box unit_low unit_high any_action) (bounded unit_low unit_high)))
        = Inr (Inl w) \<and>
      ClipAction (Inr (VectorEnv (Box unit_low unit_high any_action) (bounded unit_low unit_high)
                         (Box unit_low unit_high any_action) (bounded unit_low unit_high) 1))
        = Inr (Inr v) \<and>
      action w (Array_act wide_action) = Inr r \<and>
      actions v (Array_act wide_action) = Inr r \<and>
      within_bounds r unit_low unit_high)"
proof -
  have h1: "box_ok unit_low unit_high"
    by (simp add: box_ok_def array_ok_def unit_low_def unit_high_def)
  have h2: "array_ok wide_action" by (simp add: array_ok_def wide_action_def)
  have h3: "shape wide_action = shape unit_low" by (simp add: unit_low_def wide_action_def)
  have h4: "NaN \<notin> set (data wide_action)" by (simp add: wide_action_def)
  show ?thesis
    using h1 h2 h3 h4
      clip_action_within_bounds [OF h1 h2 h3, of any_action "bounded unit_low unit_high"
        "bounded unit_low unit_high" unit_low unit_high any_action "bounded unit_low unit_high" 1]
    by blast
qed

text \<open>
  The claim as it was stated fails for an action with a NaN component: the action does
  not lie within the bounds, and neither does the array that the wrapper returns, whose
  first component is NaN.
\<close>

theorem clip_action_nan_not_within_bounds:
  "ClipAction (Inl (Env (Box unit_low unit_high any_action) (bounded unit_low unit_high)))
     = Inr (Inl (ClipAction_obj (Env (Box unit_low unit_high any_action) (bounded unit_low unit_high)))) \<and>
   box_ok unit_low unit_high \<and> array_ok nan_action \<and> shape nan_action = shape unit_low \<and>
   \<not> within_bounds nan_action unit_low unit_high \<and>
   action (ClipAction_obj (Env (Box unit_low unit_high any_action) (bounded unit_low unit_high)))
     (Array_act nan_action) = Inr (NDArray [4] [NaN, Finite 1, Finite (-1), Finite 1]) \<and>
   \<not> within_bounds (NDArray [4] [NaN, Finite 1, Finite (-1), Finite 1]) unit_low unit_high"
  using nan_clip
  by (simp add: ClipAction_init_def clip_to_space_def box_ok_def array_ok_def within_bounds_def
      nan_action_def unit_low_def unit_high_def)

text \<open>
  Claim C7. The normalizer returns for every value: when all the leaves of the value are
  arrays of the accelerated library, the value with these arrays made plain arrays, the
  tuples, lists and dictionaries, their order and their keys kept; otherwise the TypeError
  whose message holds the first value of another type that it meets. No value of another
  type is passed through.
\<close>

theorem normalizer_total:
  "convert_jax_to_numpy v =
     (case unsupported_values v of
        [] \<Rightarrow> Inr (as_numpy v)
      | x # xs \<Rightarrow> Inl (TypeError [Fmt_lit ''Cannot convert '', Fmt_str x, Fmt_lit '' to numpy'']))"
  using convert_characterised(1) [of v]
  by (simp add: normalized_def cannot_convert_def split: list.splits)

theorem normalizer_total_witness:
  "convert_jax_to_numpy nested_observation =
     Inr (PyDict [(''position'', PyTuple [NumpyArray (NDArray [] [Finite 1]), NumpyArray (NDArray [] [Finite 2])]),
                  (''history'', PyList [NumpyArray (NDArray [] [Finite 3])])]) \<and>
   convert_jax_to_numpy (PyTuple [scalar_array 1, PyInt 5, PyNone]) =
     Inl (TypeError [Fmt_lit ''Cannot convert '', Fmt_str (PyInt 5), Fmt_lit '' to numpy'']) \<and>
   convert_jax_to_numpy (NumpyArray (NDArray [] [Finite 1])) =
     Inl (TypeError [Fmt_lit ''Cannot convert '', Fmt_str (NumpyArray (NDArray [] [Finite 1])),
                     Fmt_lit '' to numpy''])"
  using normalizer_total [of nested_observation]
    normalizer_total [of "PyTuple [scalar_array 1, PyInt 5, PyNone]"]
    normalizer_total [of "NumpyArray (NDArray [] [Finite 1])"]
  by (simp add: nested_observation_def scalar_array_def)

text \<open>
  Claim C8, as amended. An adapter configured for image-array rendering acquires the
  render state in its constructor, so that it exists before any call of \<open>render\<close>;
  \<open>close\<close> releases the render state that the adapter holds, once, and leaves none, and a
  second \<open>close\<close> changes nothing and raises nothing.
\<close>

theorem render_state_lifecycle:
  "render_state (JaxEnv_init J fe obs_space act_space (Some ''rgb_array'') seed) = Some (render_init fe) \<and>
   render_calls (JaxEnv_init J fe obs_space act_space (Some ''rgb_array'') seed) = [Render_init] \<and>
   render_state (close self) = None \<and>
   render_calls (close self) =
     render_calls self @ (case render_state self of None \<Rightarrow> [] | Some rs \<Rightarrow> [Render_close rs]) \<and>
   close (close self) = close self"
  by (simp add: JaxEnv_init_def close_def split: option.splits)

text \<open>
  The claim as it was stated fails: the adapter that renders images holds a render state
  right after its construction, when \<open>render\<close> has not been called.
\<close>

theorem render_state_exists_before_render:
  "render_state image_adapter \<noteq> None \<and> render_calls image_adapter = [Render_init]"
  by (simp add: image_adapter_def JaxEnv_init_def)

text \<open>
  Claim C9. The seeds that the constructor can draw are the numbers from 0 to
  \<open>2^32 - 2\<close>: the upper bound \<open>2**32 - 1\<close> given to \<open>integers\<close> is exclusive, so the
  largest 32-bit value is never drawn.
\<close>

theorem default_seed_range:
  "default_seeds = {0 .. 4294967294} \<and> 4294967295 \<notin> default_seeds \<and>
   (2::nat) ^ 32 - 1 = 4294967295"
  by (auto simp add: default_seeds_def integers_def)

text \<open>
  Claim C10. The constructor sets the flag from the class of the action space, and no
  operation of the adapter changes the flag or the action space. For every adapter, in
  every state, \<open>step\<close> takes its branch by the stored flag alone: with the flag set the
  action is clipped to the bounds of the \<open>Box\<close> and lines 79 to 90 run with the clipped
  action, whatever the membership test of the space says; with the flag not set the
  action is tested for membership, whatever the class of the space, and lines 79 to 90
  run with the action as it was given.
\<close>

theorem step_branch_fixed_at_construction:
  "is_box_action_space (JaxEnv_init J fe obs_space act_space mode seed) = is_Box act_space \<and>
   action_space (JaxEnv_init J fe obs_space act_space mode seed) = act_space \<and>
   is_box_action_space (snd (reset J self sd)) = is_box_action_space self \<and>
   action_space (snd (reset J self sd)) = action_space self \<and>
   is_box_action_space (snd (step J self a)) = is_box_action_space self \<and>
   action_space (snd (step J self a)) = action_space self \<and>
   is_box_action_space (snd (render self)) = is_box_action_space self \<and>
   action_space (snd (render self)) = action_space self \<and>
   is_box_action_space (close self) = is_box_action_space self \<and>
   action_space (close self) = action_space self \<and>
   (is_box_action_space self \<longrightarrow> action_space self = Box lo hi c \<longrightarrow>
      step J self a =
        (case np_clip (as_array a) lo hi of
           Inl err \<Rightarrow> (Inl err, self)
         | Inr x \<Rightarrow> step_with J self (Array_act x))) \<and>
   (is_box_action_space self \<longrightarrow> action_space self = Non_box k c \<longrightarrow>
      step J self a = (Inl (AssertionError []), self)) \<and>
   (\<not> is_box_action_space self \<longrightarrow>
      step J self a =
        (if contains (action_space self) a then step_with J self a
         else (Inl (AssertionError [Fmt_repr a, Fmt_lit '' ('', Fmt_type a,
                                    Fmt_lit '') invalid'']), self)))"
proof -
  have i: "is_box_action_space (JaxEnv_init J fe obs_space act_space mode seed) = is_Box act_space"
    "action_space (JaxEnv_init J fe obs_space act_space mode seed) = act_space"
    by (simp_all add: JaxEnv_init_def)
  have r: "is_box_action_space (snd (reset J self sd)) = is_box_action_space self"
    "action_space (snd (reset J self sd)) = action_space self"
    by (simp_all add: reset_def Let_def split: prod.splits sum.splits option.splits)
  have s: "is_box_action_space (snd (step J self a)) = is_box_action_space self"
    "action_space (snd (step J self a)) = action_space self"
    by (simp_all add: step_def step_with_def Let_def split: prod.splits sum.splits option.splits)
  have d: "is_box_action_space (snd (render self)) = is_box_action_space self"
    "action_space (snd (render self)) = action_space self"
    by (simp_all add: render_def Let_def split: prod.splits option.splits)
  have e: "is_box_action_space (close self) = is_box_action_space self"
    "action_space (close self) = action_space self"
    by (simp_all add: close_def split: option.splits)
  have b1: "is_box_action_space self \<longrightarrow> action_space self = Box lo hi c \<longrightarrow>
      step J self a =
        (case np_clip (as_array a) lo hi of
           Inl err \<Rightarrow> (Inl err, self)
         | Inr x \<Rightarrow> step_with J self (Array_act x))"
    by (simp add: step_def step_action_def split: sum.splits)
  have b2: "is_box_action_space self \<longrightarrow> action_space self = Non_box k c \<longrightarrow>
      step J self a = (Inl (AssertionError []), self)"
    by (simp add: step_def step_action_def)
  have b3: "\<not> is_box_action_space self \<longrightarrow>
      step J self a =
        (if contains (action_space self) a then step_with J self a
         else (Inl (AssertionError [Fmt_repr a, Fmt_lit '' ('', Fmt_type a,
                                    Fmt_lit '') invalid'']), self))"
    by (simp add: step_def step_action_def)
  show ?thesis using i r s d e b1 b2 b3 by blast
qed

text \<open>
  After a reset, the adapter over the \<open>Box\<close> runs the step with the clipped action although
  its membership test rejects the action, and the adapter over the space of another
  class runs it with the action unclipped.
\<close>

theorem step_branch_fixed_at_construction_witness:
  "is_box_action_space box_adapter \<and>
   action_space box_adapter = Box unit_low unit_high never_member \<and>
   \<not> contains (action_space box_adapter) (Array_act wide_action) \<and>
   fst (step example_random box_adapter (Array_act wide_action)) =
     Inr (NumpyArray (NDArray [] [Finite 7]), 1, False, False,
          NumpyArray (NDArray [4] [Finite 1, Finite 1, Finite (-1), Finite 0])) \<and>
   \<not> is_box_action_space multi_adapter \<and>
   contains (action_space multi_adapter) (Array_act wide_action) \<and>
   fst (step example_random multi_adapter (Array_act wide_action)) =
     Inr (NumpyArray (NDArray [] [Finite 7]), 1, False, False, NumpyArray wide_action)"
proof -
  have h1: "is_box_action_space box_adapter"
    and h2: "action_space box_adapter = Box unit_low unit_high never_member"
    and h3: "\<not> contains (action_space box_adapter) (Array_act wide_action)"
    by (simp_all add: adapter_defs)
  have h4: "\<not> is_box_action_space multi_adapter"
    and h5: "contains (action_space multi_adapter) (Array_act wide_action)"
    by (simp_all add: adapter_defs)
  have w1: "fst (step_with example_random box_adapter
                   (Array_act (NDArray [4] [Finite 1, Finite 1, Finite (-1), Finite 0]))) =
     Inr (NumpyArray (NDArray [] [Finite 7]), 1, False, False,
          NumpyArray (NDArray [4] [Finite 1, Finite 1, Finite (-1), Finite 0]))"
    by (simp add: step_with_def adapter_defs)
  have w2: "fst (step_with example_random multi_adapter (Array_act wide_action)) =
     Inr (NumpyArray (NDArray [] [Finite 7]), 1, False, False, NumpyArray wide_action)"
    by (simp add: step_with_def adapter_defs)
  have s1: "fst (step example_random box_adapter (Array_act wide_action)) =
     Inr (NumpyArray (NDArray [] [Finite 7]), 1, False, False,
          NumpyArray (NDArray [4] [Finite 1, Finite 1, Finite (-1), Finite 0]))"
    using step_branch_fixed_at_construction [where J = example_random and self = box_adapter
        and a = "Array_act wide_action" and lo = unit_low and hi = unit_high and c = never_member
        and fe = echo_env and obs_space = any_observation and act_space = two_actions
        and mode = None and seed = 0 and sd = None and k = Discrete]
      h1 h2 w1 wide_clip
    by simp
  have s2: "fst (step example_random multi_adapter (Array_act wide_action)) =
     Inr (NumpyArray (NDArray [] [Finite 7]), 1, False, False, NumpyArray wide_action)"
    using step_branch_fixed_at_construction [where J = example_random and self = multi_adapter
        and a = "Array_act wide_action" and lo = unit_low and hi = unit_high and c = never_member
        and fe = echo_env and obs_space = any_observation and act_space = two_actions
        and mode = None and seed = 0 and sd = None and k = Discrete]
      h4 h5 w2
    by simp
  show ?thesis using h1 h2 h3 h4 h5 s1 s2 by blast
qed

text \<open>
  Claim C2. The batched wrapper flattens the whole batch with the batched space of the
  wrapped environment: for two instances and the observation of shape \<open>(2, 3)\<close>, which
  lies in that space, it returns the array of shape \<open>(6,)\<close>, while the observation space
  that the wrapper declares has shape \<open>(2, 3)\<close>. The batch axis is lost.
\<close>

theorem vector_flatten_loses_batch_axis:
  "contains (vec_observation_space pair_vector_env) pair_observation \<and>
   (\<exists>w. VectorFlattenObservation_init pair_vector_env = Some w \<and>
        shape (low (wrapper_batched_observation_space w)) = [2, 3] \<and>
        vector_flatten_observation w pair_observation = Some (NDArray [6] [Finite 0, Finite (1 / 2), Finite 1, Finite 1, Finite 0, Finite 0]))"
  by (simp add: pair_vector_env_def pair_observation_def pair_low_def pair_high_def bounded_def
      VectorFlattenObservation_init_def vector_flatten_observation_def np_flatten_def
      np_stack_def within_bounds_def numeral_2_eq_2)

end
